theory Spec2Isabelle
  imports Main
begin

section \<open>JavaScript values\<close>

text \<open>
  The values that flow through \<^verbatim>\<open>dev-server.js\<close>: query parameters, module exports,
  arguments and results of provider functions, JSON bodies. A function that a module
  exports is an identifier; \<open>JBuiltin k\<close> is the function that every object inherits
  from \<^verbatim>\<open>Object.prototype\<close> under the name \<open>k\<close>. What calling a function does is part
  of the world (see \<open>behaviour\<close> and \<open>inherited\<close> below). Numbers are integers: the
  only numeric literal of the source is \<^verbatim>\<open>1\<close>.
\<close>

datatype jsval =
    JUndefined
  | JNull
  | JBool bool
  | JNum int
  | JStr string
  | JArr "jsval list"
  | JObj "(string \<times> jsval) list"
  | JFun nat
  | JBuiltin string

text \<open>JavaScript's ToBoolean, as used by \<^verbatim>\<open>||\<close>.\<close>

fun truthy :: "jsval \<Rightarrow> bool" where
  "truthy JUndefined = False"
| "truthy JNull = False"
| "truthy (JBool b) = b"
| "truthy (JNum n) = (n \<noteq> 0)"
| "truthy (JStr s) = (s \<noteq> [])"
| "truthy (JArr xs) = True"
| "truthy (JObj kvs) = True"
| "truthy (JFun f) = True"
| "truthy (JBuiltin k) = True"

text \<open>\<^verbatim>\<open>a || b\<close>: the left operand when it is truthy, the right operand otherwise.\<close>

definition js_or :: "jsval \<Rightarrow> jsval \<Rightarrow> jsval" where
  "js_or a b = (if truthy a then a else b)"


text \<open>
  What a module exports: a plain object with string keys, in the order in which
  \<^verbatim>\<open>Object.values\<close> enumerates them. \<open>own_prop obj k\<close> reads an own property,
  \<^verbatim>\<open>undefined\<close> when the object has none of that name.
\<close>

type_synonym exports = "(string \<times> jsval) list"

definition own_prop :: "exports \<Rightarrow> string \<Rightarrow> jsval" where
  "own_prop obj k = (case map_of obj k of None \<Rightarrow> JUndefined | Some v \<Rightarrow> v)"

text \<open>
  The members of \<^verbatim>\<open>Object.prototype\<close>: eleven functions, and the accessor
  \<^verbatim>\<open>__proto__\<close>, which gives \<^verbatim>\<open>Object.prototype\<close> itself, an object without
  enumerable properties.
\<close>

definition object_prototype_functions :: "string list" where
  "object_prototype_functions =
     [''constructor'', ''__defineGetter__'', ''__defineSetter__'', ''hasOwnProperty'',
      ''__lookupGetter__'', ''__lookupSetter__'', ''isPrototypeOf'', ''propertyIsEnumerable'',
      ''toString'', ''valueOf'', ''toLocaleString'']"

definition object_prototype_members :: "string list" where
  "object_prototype_members = ''__proto__'' # object_prototype_functions"

text \<open>
  \<^verbatim>\<open>obj[k]\<close>: the own property of that name, otherwise the member of that name that
  the object inherits, otherwise \<^verbatim>\<open>undefined\<close>.
\<close>

definition get_prop :: "exports \<Rightarrow> string \<Rightarrow> jsval" where
  "get_prop obj k =
     (case map_of obj k of
        Some v \<Rightarrow> v
      | None \<Rightarrow>
          (if k \<in> set object_prototype_functions then JBuiltin k
           else if k = ''__proto__'' then JObj []
           else JUndefined))"

text \<open>\<^verbatim>\<open>Object.values(obj)[0]\<close>: \<^verbatim>\<open>undefined\<close> on an object without properties.\<close>

definition first_value :: "exports \<Rightarrow> jsval" where
  "first_value obj = (case obj of [] \<Rightarrow> JUndefined | kv # rest \<Rightarrow> snd kv)"

text \<open>A thrown \<^verbatim>\<open>Error\<close>: its \<^verbatim>\<open>message\<close> and its \<^verbatim>\<open>stack\<close>.\<close>

datatype js_error = JsError (message: string) (stack: string)

text \<open>
  What \<^verbatim>\<open>await func(...)\<close> comes to: the promise resolves, the call throws or the
  promise rejects, or the promise never settles.
\<close>

datatype outcome = Resolved jsval | Rejected js_error | Pending

section \<open>The platform: paths, file system, module loader\<close>

type_synonym path = string

subsection \<open>Joining paths\<close>

text \<open>
  \<^verbatim>\<open>path.join\<close> of the POSIX flavour: the segments that are not empty, with a slash
  between them, normalised. Normalising drops empty segments and \<^verbatim>\<open>.\<close>, lets \<^verbatim>\<open>..\<close>
  take the segment before it away (at the root of an absolute path it takes nothing,
  in front of a relative path it stays), and keeps a trailing slash.
\<close>

fun split_path :: "string \<Rightarrow> string list" where
  "split_path [] = [[]]"
| "split_path (ch # rest) =
     (if ch = CHR ''/'' then [] # split_path rest
      else (case split_path rest of
              [] \<Rightarrow> [[ch]]
            | seg # segs \<Rightarrow> (ch # seg) # segs))"

fun join_segments :: "string list \<Rightarrow> string" where
  "join_segments [] = []"
| "join_segments [x] = x"
| "join_segments (x # y # ys) = x @ ''/'' @ join_segments (y # ys)"

text \<open>\<open>acc\<close> holds the segments kept so far, the last one first.\<close>

fun resolve_dots :: "bool \<Rightarrow> string list \<Rightarrow> string list \<Rightarrow> string list" where
  "resolve_dots relative acc [] = rev acc"
| "resolve_dots relative acc (seg # segs) =
     (if seg = [] \<or> seg = ''.'' then resolve_dots relative acc segs
      else if seg = ''..'' then
        (case acc of
           [] \<Rightarrow> resolve_dots relative (if relative then [''..''] else []) segs
         | kept # others \<Rightarrow>
             (if kept = ''..'' then resolve_dots relative (''..'' # acc) segs
              else resolve_dots relative others segs))
      else resolve_dots relative (seg # acc) segs)"

definition normalize :: "path \<Rightarrow> path" where
  "normalize p =
     (if p = [] then ''.''
      else
        (let absolute = (take 1 p = ''/'');
             trailing = (take 1 (rev p) = ''/'');
             kept = join_segments (resolve_dots (\<not> absolute) [] (split_path p))
         in if kept = []
            then (if absolute then ''/'' else if trailing then ''./'' else ''.'')
            else (if absolute then ''/'' else []) @ kept @ (if trailing then ''/'' else [])))"

definition path_join :: "string list \<Rightarrow> path" where
  "path_join segments =
     (let joined = join_segments (filter (\<lambda>segment. segment \<noteq> []) segments)
      in if joined = [] then ''.'' else normalize joined)"

subsection \<open>Files\<close>

datatype dirent = Dirent (name: string) (isDirectory: bool)

text \<open>
  A regular file carries its modification time and what evaluating it as a CommonJS
  module gives. \<open>RegFile\<close> is a file that requires no other module: its exports, or the
  error it throws while loading. \<open>Script\<close> is a file that requires the modules
  \<open>requires\<close>, by their absolute names and in this order, and then computes its exports
  (or throws) from what each of these calls of \<^verbatim>\<open>require\<close> returned or threw. A
  directory carries its entries in \<^verbatim>\<open>readdirSync\<close> order. Symbolic links are not
  modelled.
\<close>

datatype node =
    RegFile (mtime: string) (evaluates: "js_error + exports")
  | Script (mtime: string) (requires: "path list")
      (body: "(js_error + exports) list \<Rightarrow> js_error + exports")
  | Directory (mtime: string) (dirents: "dirent list")

text \<open>
  The world a request meets: the disk at the time of the request; what a call of each
  exported function, and of each function inherited from \<^verbatim>\<open>Object.prototype\<close>, comes to
  on given arguments; and how many levels of nested \<^verbatim>\<open>require\<close> calls, beyond the first,
  the call stack of the platform holds.
\<close>

record world =
  disk :: "path \<rightharpoonup> node"
  behaviour :: "nat \<Rightarrow> jsval list \<Rightarrow> outcome"
  inherited :: "string \<Rightarrow> jsval list \<Rightarrow> outcome"
  nesting :: nat

definition existsSync :: "world \<Rightarrow> path \<Rightarrow> bool" where
  "existsSync w p = (case disk w p of None \<Rightarrow> False | Some n \<Rightarrow> True)"

definition is_file :: "world \<Rightarrow> path \<Rightarrow> bool" where
  "is_file w p =
     (case disk w p of
        None \<Rightarrow> False
      | Some n \<Rightarrow>
          (case n of RegFile t r \<Rightarrow> True | Script t ds bd \<Rightarrow> True | Directory t es \<Rightarrow> False))"

definition is_directory :: "world \<Rightarrow> path \<Rightarrow> bool" where
  "is_directory w p =
     (case disk w p of
        None \<Rightarrow> False
      | Some n \<Rightarrow>
          (case n of RegFile t r \<Rightarrow> False | Script t ds bd \<Rightarrow> False | Directory t es \<Rightarrow> True))"



subsection \<open>The module loader\<close>

text \<open>
  What the loader keeps between requests: \<^verbatim>\<open>require.cache\<close>, the modules loaded so far
  by resolved file name, and its path cache, the file name each request name was resolved
  to.
\<close>

type_synonym cache = "path \<rightharpoonup> exports"

record loader =
  modules :: cache
  paths :: "path \<rightharpoonup> path"

definition module_not_found :: "path \<Rightarrow> js_error" where
  "module_not_found p = JsError (''Cannot find module '' @ p) ''Error: Cannot find module''"

definition cannot_read :: "path \<Rightarrow> js_error" where
  "cannot_read p = JsError (''Cannot read the file '' @ p) ''Error: ENOENT or EISDIR''"

definition stack_exhausted :: js_error where
  "stack_exhausted = JsError ''Maximum call stack size exceeded'' ''RangeError''"

text \<open>
  The search of the loader for an absolute name on the disk: a file of that name; else
  the name with \<^verbatim>\<open>.js\<close>, \<^verbatim>\<open>.json\<close> or \<^verbatim>\<open>.node\<close> added; else, in a directory of that
  name, \<^verbatim>\<open>index.js\<close>, \<^verbatim>\<open>index.json\<close> or \<^verbatim>\<open>index.node\<close> (a \<^verbatim>\<open>package.json\<close> with a
  \<^verbatim>\<open>main\<close> entry in such a directory is left out).
\<close>

definition try_extensions :: "world \<Rightarrow> path \<Rightarrow> path option" where
  "try_extensions w p = List.find (is_file w) [p @ ''.js'', p @ ''.json'', p @ ''.node'']"

definition find_path :: "world \<Rightarrow> path \<Rightarrow> path option" where
  "find_path w p =
     (if is_file w p then Some p
      else (case try_extensions w p of
              Some q \<Rightarrow> Some q
            | None \<Rightarrow>
                (if is_directory w p then try_extensions w (path_join [p, ''index''])
                 else None)))"

text \<open>
  \<^verbatim>\<open>require.resolve(p)\<close>: a name that was resolved before is answered from the path cache
  without a look at the disk; otherwise the disk is searched, and what is found is
  remembered. The loader throws when nothing is found (the text of its messages is
  abridged).
\<close>

definition require_resolve :: "world \<Rightarrow> loader \<Rightarrow> path \<Rightarrow> (js_error + path) \<times> loader" where
  "require_resolve w l p =
     (case paths l p of
        Some q \<Rightarrow> (Inr q, l)
      | None \<Rightarrow>
          (case find_path w p of
             None \<Rightarrow> (Inl (module_not_found p), l)
           | Some q \<Rightarrow> (Inr q, l\<lparr>paths := (paths l)(p \<mapsto> q)\<rparr>)))"

text \<open>
  \<^verbatim>\<open>require(p)\<close> with \<open>n\<close> levels of the call stack left. The name is resolved; a module
  found in the cache under the resolved name is returned as it was loaded. Otherwise the
  file is evaluated: it is entered in the cache before its code runs (with no exports
  yet, which is what a module sees that requires it back), the modules it requires are
  loaded in the same way, and its entry is removed again when it throws.
\<close>

fun load_module :: "nat \<Rightarrow> world \<Rightarrow> loader \<Rightarrow> path \<Rightarrow> (js_error + exports) \<times> loader"
and load_all :: "nat \<Rightarrow> world \<Rightarrow> loader \<Rightarrow> path list \<Rightarrow> (js_error + exports) list \<times> loader"
where
  "load_module 0 w l p = (Inl stack_exhausted, l)"
| "load_module (Suc n) w l p =
     (case require_resolve w l p of
        (Inl e, l1) \<Rightarrow> (Inl e, l1)
      | (Inr q, l1) \<Rightarrow>
          (case modules l1 q of
             Some m \<Rightarrow> (Inr m, l1)
           | None \<Rightarrow>
               (case disk w q of
                  None \<Rightarrow> (Inl (cannot_read q), l1)
                | Some nd \<Rightarrow>
                    (case nd of
                       RegFile t r \<Rightarrow>
                         (case r of
                            Inl e \<Rightarrow> (Inl e, l1)
                          | Inr m \<Rightarrow> (Inr m, l1\<lparr>modules := (modules l1)(q \<mapsto> m)\<rparr>))
                     | Script t ds bd \<Rightarrow>
                         (case load_all n w (l1\<lparr>modules := (modules l1)(q \<mapsto> [])\<rparr>) ds of
                            (rs, l2) \<Rightarrow>
                              (case bd rs of
                                 Inl e \<Rightarrow> (Inl e, l2\<lparr>modules := (modules l2)(q := None)\<rparr>)
                               | Inr m \<Rightarrow> (Inr m, l2\<lparr>modules := (modules l2)(q \<mapsto> m)\<rparr>)))
                     | Directory t es \<Rightarrow> (Inl (cannot_read q), l1)))))"
| "load_all n w l [] = ([], l)"
| "load_all n w l (d # ds) =
     (case load_module n w l d of
        (r, l1) \<Rightarrow> (case load_all n w l1 ds of (rs, l2) \<Rightarrow> (r # rs, l2)))"

definition require :: "world \<Rightarrow> loader \<Rightarrow> path \<Rightarrow> (js_error + exports) \<times> loader" where
  "require w l p = load_module (Suc (nesting w)) w l p"

text \<open>
  The two statements with which both handlers load a file (lines 75 to 76 and 121 to
  122): \<^verbatim>\<open>delete require.cache[require.resolve(filePath)]\<close>, then
  \<^verbatim>\<open>require(filePath)\<close>. The result is what was loaded or thrown, the calls made on the
  loader, and the loader afterwards.
\<close>

datatype event =
    ExistsSync path
  | RequireResolve path
  | Require path
  | Invoke nat "jsval list"
  | InvokeInherited string "jsval list"

definition fresh_load ::
    "world \<Rightarrow> loader \<Rightarrow> path \<Rightarrow> (js_error + exports) \<times> event list \<times> loader" where
  "fresh_load w l filePath =
     (case require_resolve w l filePath of
        (Inl e, l1) \<Rightarrow> (Inl e, [RequireResolve filePath], l1)
      | (Inr resolved, l1) \<Rightarrow>
          (case require w (l1\<lparr>modules := (modules l1)(resolved := None)\<rparr>) filePath of
             (r, l2) \<Rightarrow> (r, [RequireResolve filePath, Require filePath], l2)))"

section \<open>The server\<close>

text \<open>The fields the constructor of \<^verbatim>\<open>DevServer\<close> sets.\<close>

record server =
  port :: jsval
  distDir :: path
  currentDir :: path

type_synonym query = "string \<rightharpoonup> jsval"

text \<open>\<^verbatim>\<open>req.query.k\<close>.\<close>

definition qget :: "query \<Rightarrow> string \<Rightarrow> jsval" where
  "qget q k = (case q k of None \<Rightarrow> JUndefined | Some v \<Rightarrow> v)"

text \<open>
  The answer to a request: \<^verbatim>\<open>res.status(n).json(v)\<close> (status 200 without
  \<^verbatim>\<open>status\<close>), \<^verbatim>\<open>res.sendFile(p)\<close>, a file streamed by the static middleware, a
  redirect with its status (302 for \<^verbatim>\<open>res.redirect\<close>), the error page of the framework
  for an exception that leaves a handler, or no answer at all when an awaited promise
  never settles.
\<close>

datatype response =
    Json nat jsval
  | SendFile path
  | StaticFile path
  | Redirect nat string
  | ErrorPage js_error
  | NoResponse

subsection \<open>The dispatcher: GET /:provider/:functionName\<close>

definition reserved :: "string list" where
  "reserved = [''manifest.json'', ''dist'', ''build'', ''status'', ''providers'', ''health'']"

definition providerContext :: jsval where
  "providerContext = JObj [(''url'', JStr ''https://example.com'')]"

text \<open>Lines 126 to 131: the exported function or object.\<close>

definition select_export :: "string \<Rightarrow> exports \<Rightarrow> jsval" where
  "select_export functionName exported =
     (let func = js_or (get_prop exported functionName)
                   (js_or (get_prop exported ''default'') (first_value exported))
      in if functionName = ''watch''
         then js_or (get_prop exported ''stream'') (get_prop exported ''default'')
         else func)"

text \<open>
  Lines 144 to 168: the arguments of the call, by function name. The route has no
  \<^verbatim>\<open>query\<close> parameter, so \<^verbatim>\<open>req.params.query\<close> is \<^verbatim>\<open>undefined\<close> there.
\<close>

definition call_args :: "string \<Rightarrow> query \<Rightarrow> jsval list" where
  "call_args functionName q =
     (if functionName = ''posts'' then
        (let page = js_or (qget q ''page'') (JNum 1);
             filter' = js_or (qget q ''filter'') (JStr '''')
         in [filter', page, providerContext])
      else if functionName = ''search'' then
        (let query' = js_or (qget q ''query'') JUndefined;
             page = js_or (qget q ''page'') (JNum 1)
         in [query', page, providerContext])
      else if functionName = ''stream'' \<or> functionName = ''watch'' then
        (let id' = js_or (qget q ''id'') (qget q ''link'');
             type' = js_or (qget q ''type'') (JStr '''')
         in [id', type', providerContext])
      else if functionName = ''catalog'' then [providerContext]
      else if functionName = ''meta'' then
        (let link = qget q ''link'' in [link, providerContext])
      else if functionName = ''episodes'' then
        (let link = js_or (qget q ''url'') (qget q ''link'') in [link, providerContext])
      else [providerContext])"

text \<open>The answer of the \<^verbatim>\<open>catch\<close> block, lines 172 to 175.\<close>

definition execution_error :: "js_error \<Rightarrow> response" where
  "execution_error e = Json 500 (JObj [(''error'', JStr (message e)), (''stack'', JStr (stack e))])"

text \<open>
  \<^verbatim>\<open>result = await func(...); res.json(result)\<close> inside the \<^verbatim>\<open>try\<close> block: the answer
  once the call has settled.
\<close>

definition settle :: "outcome \<Rightarrow> response" where
  "settle called =
     (case called of
        Resolved result \<Rightarrow> Json 200 result
      | Rejected e \<Rightarrow> execution_error e
      | Pending \<Rightarrow> NoResponse)"

text \<open>
  Lines 124 to 175, from what the two loading statements returned or threw: the answer,
  and the call made on the way.
\<close>

definition respond ::
    "world \<Rightarrow> string \<Rightarrow> query \<Rightarrow> js_error + exports \<Rightarrow> response \<times> event list" where
  "respond w functionName q loaded =
     (case loaded of
        Inl e \<Rightarrow> (execution_error e, [])
      | Inr exported \<Rightarrow>
          (let func = select_export functionName exported
           in case func of
                JFun f \<Rightarrow>
                  (let args = call_args functionName q
                   in (settle (behaviour w f args), [Invoke f args]))
              | JBuiltin k \<Rightarrow>
                  (let args = call_args functionName q
                   in (settle (inherited w k args), [InvokeInherited k args]))
              | _ \<Rightarrow> (Json 200 func, [])))"

text \<open>The \<^verbatim>\<open>try\<close> block, lines 120 to 175, for the file name the lines before it chose.\<close>

definition execute ::
    "world \<Rightarrow> loader \<Rightarrow> string \<Rightarrow> query \<Rightarrow> path \<Rightarrow> response \<times> event list \<times> loader" where
  "execute w l functionName q filePath =
     (case fresh_load w l filePath of
        (loaded, loading, l') \<Rightarrow>
          (case respond w functionName q loaded of
             (r, calls) \<Rightarrow> (r, loading @ calls, l')))"

definition not_found_body :: "string \<Rightarrow> string \<Rightarrow> jsval" where
  "not_found_body provider functionName =
     JObj [(''error'', JStr (''Function '' @ functionName @ '' not found for '' @ provider))]"

text \<open>
  The handler of \<^verbatim>\<open>GET /:provider/:functionName\<close>, lines 100 to 176, on the loader as
  earlier requests left it: the answer, what the handler did, and the loader afterwards.
\<close>

definition dispatch_on ::
    "server \<Rightarrow> world \<Rightarrow> loader \<Rightarrow> string \<Rightarrow> string \<Rightarrow> query \<Rightarrow> response \<times> event list \<times> loader" where
  "dispatch_on s w l provider functionName q =
     (if provider \<in> set reserved
      then (Json 404 (JObj [(''error'', JStr ''Not found'')]), [], l)
      else
        (let filePath = path_join [distDir s, provider, functionName @ ''.js'']
         in if \<not> existsSync w filePath
            then
              (if functionName = ''watch''
               then
                 (case execute w l functionName q (path_join [distDir s, provider, ''stream.js'']) of
                    (r, tr, l') \<Rightarrow> (r, ExistsSync filePath # tr, l'))
               else (Json 404 (not_found_body provider functionName), [ExistsSync filePath], l))
            else
              (case execute w l functionName q filePath of
                 (r, tr, l') \<Rightarrow> (r, ExistsSync filePath # tr, l'))))"

text \<open>
  Lines 108 to 118 on their own: the file the handler goes on to load. \<open>None\<close> is the
  early return with 404; for \<^verbatim>\<open>watch\<close> the fallback \<^verbatim>\<open>stream.js\<close> is taken
  without a look at the disk.
\<close>

definition module_file :: "server \<Rightarrow> world \<Rightarrow> string \<Rightarrow> string \<Rightarrow> path option" where
  "module_file s w provider functionName =
     (let filePath = path_join [distDir s, provider, functionName @ ''.js'']
      in if \<not> existsSync w filePath
         then (if functionName = ''watch''
               then Some (path_join [distDir s, provider, ''stream.js''])
               else None)
         else Some filePath)"

subsection \<open>GET /dist/:provider/:file\<close>

text \<open>\<^verbatim>\<open>str.endsWith(x)\<close>.\<close>

definition endsWith :: "string \<Rightarrow> string \<Rightarrow> bool" where
  "endsWith str x = (take (length x) (rev str) = rev x)"

text \<open>The answer of the \<^verbatim>\<open>catch\<close> block, lines 81 to 84.\<close>

definition load_failed :: "js_error \<Rightarrow> response" where
  "load_failed err =
     Json 500 (JObj [(''error'', JStr ''Failed to load module''), (''details'', JStr (message err))])"

definition file_not_found :: "string \<Rightarrow> string \<Rightarrow> response" where
  "file_not_found provider file =
     Json 404 (JObj [(''error'', JStr (''File not found: '' @ provider @ ''/'' @ file)),
                     (''hint'', JStr ''Make sure to run build first'')])"

text \<open>
  Lines 61 to 68: the file name after the \<^verbatim>\<open>.js\<close> fallback, and the existence
  checks made on the way (the second operand of \<^verbatim>\<open>&&\<close> reads no file).
\<close>

definition dist_path :: "server \<Rightarrow> world \<Rightarrow> string \<Rightarrow> string \<Rightarrow> path \<times> event list" where
  "dist_path s w provider file =
     (let filePath = path_join [distDir s, provider, file]
      in if \<not> existsSync w filePath \<and> \<not> endsWith filePath ''.js''
         then (if existsSync w (filePath @ ''.js'')
               then (filePath @ ''.js'', [ExistsSync filePath, ExistsSync (filePath @ ''.js'')])
               else (filePath, [ExistsSync filePath, ExistsSync (filePath @ ''.js'')]))
         else (filePath, [ExistsSync filePath]))"

text \<open>The handler of \<^verbatim>\<open>GET /dist/:provider/:file\<close>, lines 59 to 96.\<close>

definition dist_file_on ::
    "server \<Rightarrow> world \<Rightarrow> loader \<Rightarrow> string \<Rightarrow> string \<Rightarrow> response \<times> event list \<times> loader" where
  "dist_file_on s w l provider file =
     (case dist_path s w provider file of
        (filePath, checked) \<Rightarrow>
          (let tr = checked @ [ExistsSync filePath]
           in if existsSync w filePath
              then
                (if endsWith filePath ''.js''
                 then
                   (case fresh_load w l filePath of
                      (loaded, loading, l') \<Rightarrow>
                        (case loaded of
                           Inl err \<Rightarrow> (load_failed err, tr @ loading, l')
                         | Inr moduleData \<Rightarrow> (Json 200 (JObj moduleData), tr @ loading, l')))
                 else (SendFile filePath, tr, l))
              else (file_not_found provider file, tr, l)))"

subsection \<open>The handlers on a loader that is in step with the disk\<close>

text \<open>
  A loader whose path cache holds, for every name, what the search on the present disk
  gives: the state after resolving names on a disk that has not changed under them.
  \<open>dispatch\<close> and \<open>dist_file\<close> are the handlers on such a loader with the module cache
  \<open>c\<close>; the reply keeps the module cache. Resolutions that the disk has since
  overtaken are the matter of \<open>dispatch_on\<close> and \<open>dist_file_on\<close>.
\<close>

definition settled :: "world \<Rightarrow> cache \<Rightarrow> loader" where
  "settled w c = \<lparr>modules = c, paths = find_path w\<rparr>"

record reply =
  resp :: response
  trace :: "event list"
  cache_after :: cache

definition answer :: "response \<Rightarrow> event list \<Rightarrow> cache \<Rightarrow> reply" where
  "answer r tr c = \<lparr>resp = r, trace = tr, cache_after = c\<rparr>"

definition dispatch :: "server \<Rightarrow> world \<Rightarrow> cache \<Rightarrow> string \<Rightarrow> string \<Rightarrow> query \<Rightarrow> reply" where
  "dispatch s w c provider functionName q =
     (case dispatch_on s w (settled w c) provider functionName q of
        (r, tr, l) \<Rightarrow> answer r tr (modules l))"

definition dist_file :: "server \<Rightarrow> world \<Rightarrow> cache \<Rightarrow> string \<Rightarrow> string \<Rightarrow> reply" where
  "dist_file s w c provider file =
     (case dist_file_on s w (settled w c) provider file of
        (r, tr, l) \<Rightarrow> answer r tr (modules l))"

subsection \<open>The static middleware in front of the routes\<close>

text \<open>
  Line 33 mounts \<^verbatim>\<open>express.static(this.distDir)\<close> on \<^verbatim>\<open>/dist\<close>, and the constructor
  calls \<^verbatim>\<open>setupMiddleware\<close> before \<^verbatim>\<open>setupRoutes\<close>: a request
  \<^verbatim>\<open>GET /dist/provider/file\<close> reaches the middleware first. With its default options
  the middleware normalises the path under its mount, streams a regular file of that name
  under the root, redirects to the name with a slash added when it is a directory (the
  names are taken to need no escaping), and hands every other request on to the routes:
  a missing file, a path that leaves the root, and a name it passes over as a dot file.
  Which names those are differs between the versions of the framework (the last segment
  starts with a dot, or any segment does), so it is the parameter \<open>dotfile\<close> here.
\<close>

definition hidden :: "string \<Rightarrow> bool" where
  "hidden segment = (1 < length segment \<and> take 1 segment = ''.'')"

definition last_segment_hidden :: "string list \<Rightarrow> bool" where
  "last_segment_hidden segments = (case rev segments of [] \<Rightarrow> False | seg # segs \<Rightarrow> hidden seg)"

definition any_segment_hidden :: "string list \<Rightarrow> bool" where
  "any_segment_hidden segments = list_ex hidden segments"

definition express_static ::
    "(string list \<Rightarrow> bool) \<Rightarrow> server \<Rightarrow> world \<Rightarrow> string \<Rightarrow> string \<Rightarrow> response option" where
  "express_static dotfile s w provider file =
     (let under_root = normalize (''./'' @ provider @ ''/'' @ file);
          segments = split_path under_root
      in if ''..'' \<in> set segments \<or> dotfile segments then None
         else (case disk w (path_join [distDir s, under_root]) of
                 None \<Rightarrow> None
               | Some n \<Rightarrow>
                   (case n of
                      RegFile t r \<Rightarrow> Some (StaticFile (path_join [distDir s, under_root]))
                    | Script t ds bd \<Rightarrow> Some (StaticFile (path_join [distDir s, under_root]))
                    | Directory t es \<Rightarrow>
                        Some (Redirect 301 (''/dist/'' @ provider @ ''/'' @ file @ ''/'')))))"

text \<open>\<^verbatim>\<open>GET /dist/:provider/:file\<close> as the server answers it: the middleware, then the route.\<close>

definition get_dist ::
    "(string list \<Rightarrow> bool) \<Rightarrow> server \<Rightarrow> world \<Rightarrow> cache \<Rightarrow> string \<Rightarrow> string \<Rightarrow> reply" where
  "get_dist dotfile s w c provider file =
     (case express_static dotfile s w provider file of
        Some r \<Rightarrow> answer r [] c
      | None \<Rightarrow> dist_file s w c provider file)"

subsection \<open>GET /:provider/search/:query\<close>

text \<open>
  \<^verbatim>\<open>encodeURIComponent\<close> on a string given by its UTF-8 bytes: the letters, the digits
  and \<^verbatim>\<open>- _ . ! ~ * ' ( )\<close> stand for themselves, every other byte becomes a percent
  sign and two upper-case hexadecimal digits.
\<close>

definition unreserved :: "char \<Rightarrow> bool" where
  "unreserved ch =
     (ch \<in> set (''ABCDEFGHIJKLMNOPQRSTUVWXYZabcdefghijklmnopqrstuvwxyz0123456789-_.!~*()'' @ [CHR 0x27]))"

definition hex_digit :: "nat \<Rightarrow> char" where
  "hex_digit n = ''0123456789ABCDEF'' ! (n mod 16)"

definition percent :: "char \<Rightarrow> string" where
  "percent ch = [CHR ''%'', hex_digit (of_char ch div 16), hex_digit (of_char ch mod 16)]"

definition encodeURIComponent :: "string \<Rightarrow> string" where
  "encodeURIComponent str = concat (map (\<lambda>ch. if unreserved ch then [ch] else percent ch) str)"

text \<open>
  The handler, lines 179 to 190. Its assignment to \<^verbatim>\<open>req.query.query\<close> changes the
  request object of this request only, which nothing reads afterwards.
\<close>

definition search_redirect :: "cache \<Rightarrow> string \<Rightarrow> string \<Rightarrow> reply" where
  "search_redirect c provider query' =
     answer (Redirect 302 (''/'' @ provider @ ''/search?query='' @ encodeURIComponent query')) [] c"

subsection \<open>GET /status and GET /providers\<close>






section \<open>Build trees to run the server on\<close>

definition demo_server :: server where
  "demo_server = \<lparr>port = JNum 7860, distDir = ''/app/dist'', currentDir = ''/app''\<rparr>"

definition broken_module :: js_error where
  "broken_module = JsError ''Unexpected token'' ''SyntaxError: Unexpected token''"

text \<open>
  What the functions of \<^verbatim>\<open>Object.prototype\<close> do when they are called as the handler
  calls them, without a receiver: \<^verbatim>\<open>toString\<close> answers for \<^verbatim>\<open>undefined\<close>,
  \<^verbatim>\<open>constructor\<close>, which is \<^verbatim>\<open>Object\<close>, gives its first argument back (a new object
  for \<^verbatim>\<open>undefined\<close> and \<^verbatim>\<open>null\<close>), \<^verbatim>\<open>isPrototypeOf\<close> answers \<^verbatim>\<open>false\<close> for an
  argument that is not an object, and every other call throws a \<^verbatim>\<open>TypeError\<close>.
\<close>

fun is_object :: "jsval \<Rightarrow> bool" where
  "is_object (JArr xs) = True"
| "is_object (JObj kvs) = True"
| "is_object (JFun f) = True"
| "is_object (JBuiltin k) = True"
| "is_object v = False"

definition no_receiver :: "string \<Rightarrow> jsval list \<Rightarrow> outcome" where
  "no_receiver k args =
     (let first = (case args of [] \<Rightarrow> JUndefined | v # rest \<Rightarrow> v)
      in if k = ''toString'' then Resolved (JStr ''[object Undefined]'')
         else if k = ''constructor''
           then Resolved (if first = JUndefined \<or> first = JNull then JObj [] else first)
         else if k = ''isPrototypeOf'' \<and> \<not> is_object first then Resolved (JBool False)
         else Rejected (JsError ''Cannot convert undefined or null to object'' ''TypeError''))"

text \<open>
  One provider with a catalog of data, a posts function (1), a stream function (2), a
  module whose named export is \<^verbatim>\<open>null\<close> beside a default function (3), a file that
  throws while loading and a source map; an empty provider directory; a plain file
  beside them; a manifest.
\<close>

definition demo_disk :: "(path \<times> node) list" where
  "demo_disk =
     [(''/app/manifest.json'', RegFile ''2024-05-01T10:00:00.000Z'' (Inl broken_module)),
      (''/app/dist'', Directory ''2024-05-01T10:00:00.000Z''
         [Dirent ''demo'' True, Dirent ''notes.txt'' False, Dirent ''empty'' True]),
      (''/app/dist/notes.txt'', RegFile ''2024-05-01T10:00:00.000Z'' (Inl broken_module)),
      (''/app/dist/empty'', Directory ''2024-05-01T10:00:00.000Z'' []),
      (''/app/dist/demo'', Directory ''2024-05-01T10:00:00.000Z''
         [Dirent ''catalog.js'' False, Dirent ''posts.js'' False, Dirent ''stream.js'' False,
          Dirent ''meta.js'' False, Dirent ''broken.js'' False, Dirent ''posts.js.map'' False]),
      (''/app/dist/demo/catalog.js'', RegFile ''2024-05-01T10:00:00.000Z''
         (Inr [(''catalog'', JArr [JObj [(''title'', JStr ''Home''), (''filter'', JStr [])]])])),
      (''/app/dist/demo/posts.js'', RegFile ''2024-05-01T10:00:00.000Z''
         (Inr [(''posts'', JFun 1)])),
      (''/app/dist/demo/stream.js'', RegFile ''2024-05-01T10:00:00.000Z''
         (Inr [(''stream'', JFun 2)])),
      (''/app/dist/demo/meta.js'', RegFile ''2024-05-01T10:00:00.000Z''
         (Inr [(''meta'', JNull), (''default'', JFun 3)])),
      (''/app/dist/demo/broken.js'', RegFile ''2024-05-01T10:00:00.000Z'' (Inl broken_module)),
      (''/app/dist/demo/posts.js.map'', RegFile ''2024-05-01T10:00:00.000Z'' (Inl broken_module))]"

text \<open>The provider functions of the tree answer with the arguments they were called with.\<close>

definition demo_world :: world where
  "demo_world =
     \<lparr>disk = map_of demo_disk, behaviour = (\<lambda>f args. Resolved (JArr args)),
      inherited = no_receiver, nesting = 8\<rparr>"


text \<open>The build tree after \<^verbatim>\<open>stream.js\<close> of the provider was removed.\<close>

definition streamless_world :: world where
  "streamless_world = demo_world\<lparr>disk := (disk demo_world)(''/app/dist/demo/stream.js'' := None)\<rparr>"







text \<open>The loader of a process that has just started.\<close>

definition started :: loader where
  "started = \<lparr>modules = Map.empty, paths = Map.empty\<rparr>"

section \<open>Notions the properties are stated with\<close>

text \<open>
  The selection rule in the words of the specification: the export named
  \<open>functionName\<close> when the module has one, otherwise its default export when it has
  one, otherwise its first export; for \<^verbatim>\<open>watch\<close> the export named \<^verbatim>\<open>stream\<close> when
  the module has one, otherwise its default export.
\<close>

definition stream_else_default :: "exports \<Rightarrow> jsval" where
  "stream_else_default exported =
     (case map_of exported ''stream'' of
        Some v \<Rightarrow> v
      | None \<Rightarrow> get_prop exported ''default'')"

definition by_priority :: "string \<Rightarrow> exports \<Rightarrow> jsval" where
  "by_priority functionName exported =
     (if functionName = ''watch'' then stream_else_default exported
      else (case map_of exported functionName of
              Some v \<Rightarrow> v
            | None \<Rightarrow>
                (case map_of exported ''default'' of
                   Some v \<Rightarrow> v
                 | None \<Rightarrow> first_value exported)))"


text \<open>
  Percent-decoding, as the query parser applies it to the value of a parameter of the
  redirected request: \<open>None\<close> on a percent sign that two hexadecimal digits do not
  follow.
\<close>

definition hex_value :: "char \<Rightarrow> nat option" where
  "hex_value ch =
     (if ch \<in> set ''0123456789'' then Some (of_char ch - 48)
      else if ch \<in> set ''ABCDEF'' then Some (of_char ch - 55)
      else if ch \<in> set ''abcdef'' then Some (of_char ch - 87)
      else None)"

fun percent_decode :: "string \<Rightarrow> string option" where
  "percent_decode [] = Some []"
| "percent_decode (c # cs) =
     (if c = CHR ''%''
      then (case cs of
              a # b # rest \<Rightarrow>
                (case hex_value a of
                   None \<Rightarrow> None
                 | Some h \<Rightarrow>
                     (case hex_value b of
                        None \<Rightarrow> None
                      | Some l \<Rightarrow> map_option ((#) (char_of (16 * h + l))) (percent_decode rest)))
            | _ \<Rightarrow> None)
      else map_option ((#) c) (percent_decode cs))"

text \<open>The characters an encoded component is made of.\<close>

definition uri_safe :: "char \<Rightarrow> bool" where
  "uri_safe ch = (unreserved ch \<or> ch \<in> set ''%0123456789ABCDEF'')"

section \<open>Reserved provider names\<close>

text \<open>
  C4. For each of the reserved provider names manifest.json, dist, build, status,
  providers and health, and every function name, the dispatcher answers 404 with the
  body \<^verbatim>\<open>{error: "Not found"}\<close>; it checks no file, resolves and loads no module, calls
  nothing, and leaves the module cache as it was.
\<close>

theorem reserved_provider_not_found:
  assumes "provider \<in> set [''manifest.json'', ''dist'', ''build'', ''status'', ''providers'', ''health'']"
  shows "dispatch s w c provider functionName q =
           \<lparr>resp = Json 404 (JObj [(''error'', JStr ''Not found'')]), trace = [], cache_after = c\<rparr>"
  using assms by (simp add: dispatch_def dispatch_on_def reserved_def answer_def settled_def)

text \<open>\<^verbatim>\<open>GET /status/posts\<close> on the build tree.\<close>

theorem reserved_provider_not_found_witness:
  "dispatch demo_server demo_world Map.empty ''status'' ''posts'' Map.empty =
     \<lparr>resp = Json 404 (JObj [(''error'', JStr ''Not found'')]), trace = [], cache_after = Map.empty\<rparr>"
  by (rule reserved_provider_not_found) simp

section \<open>Resolving and loading\<close>






lemma require_resolve_settled:
  "require_resolve w (settled w c) p =
     (case find_path w p of
        None \<Rightarrow> (Inl (module_not_found p), settled w c)
      | Some q \<Rightarrow> (Inr q, settled w c))"
  by (simp add: require_resolve_def settled_def split: option.splits)

lemma settled_modules [simp]: "(settled w c)\<lparr>modules := c'\<rparr> = settled w c'"
  by (simp add: settled_def)

lemma modules_settled [simp]: "modules (settled w c) = c"
  by (simp add: settled_def)




lemma dispatch_module_file:
  "provider \<notin> set reserved \<Longrightarrow>
     dispatch s w c provider fn q =
       (case module_file s w provider fn of
          None \<Rightarrow>
            answer (Json 404 (not_found_body provider fn))
              [ExistsSync (path_join [distDir s, provider, fn @ ''.js''])] c
        | Some filePath \<Rightarrow>
            (case execute w (settled w c) fn q filePath of
               (r, tr, l) \<Rightarrow>
                 answer r (ExistsSync (path_join [distDir s, provider, fn @ ''.js'']) # tr) (modules l)))"
  by (simp add: dispatch_def dispatch_on_def module_file_def Let_def split: prod.splits)


section \<open>Names on the build trees\<close>

text \<open>The names the handlers build on the build trees, joined and normalised.\<close>

lemma demo_paths:
  "path_join [''/app/dist'', ''demo'', ''watch.js''] = ''/app/dist/demo/watch.js''"
  "path_join [''/app/dist'', ''demo'', ''stream.js''] = ''/app/dist/demo/stream.js''"
  "path_join [''/app/dist'', ''demo'', ''posts.js''] = ''/app/dist/demo/posts.js''"
  "path_join [''/app/dist'', ''demo'', ''catalog.js''] = ''/app/dist/demo/catalog.js''"
  "path_join [''/app/dist'', ''demo'', ''catalog''] = ''/app/dist/demo/catalog''"
  "path_join [''/app/dist'', ''demo'', ''broken''] = ''/app/dist/demo/broken''"
  "path_join [''/app/dist'', ''demo'', ''nothing''] = ''/app/dist/demo/nothing''"
  "path_join [''/app/dist'', ''demo/catalog.js''] = ''/app/dist/demo/catalog.js''"
  "path_join [''/app/dist'', ''empty'', ''watch.js''] = ''/app/dist/empty/watch.js''"
  "path_join [''/app/dist'', ''empty'', ''stream.js''] = ''/app/dist/empty/stream.js''"
  "path_join [''/app/dist'', ''kit'', ''posts.js''] = ''/app/dist/kit/posts.js''"
  "path_join [''/app'', ''manifest.json''] = ''/app/manifest.json''"
  "path_join [''/app/dist/empty/stream.js'', ''index''] = ''/app/dist/empty/stream.js/index''"
  by code_simp+

lemma demo_disk_files:
  "map_of demo_disk ''/app/dist/demo/watch.js'' = None"
  "map_of demo_disk ''/app/dist/demo/stream.js'' =
     Some (RegFile ''2024-05-01T10:00:00.000Z'' (Inr [(''stream'', JFun 2)]))"
  "map_of demo_disk ''/app/dist/demo/posts.js'' =
     Some (RegFile ''2024-05-01T10:00:00.000Z'' (Inr [(''posts'', JFun 1)]))"
  "map_of demo_disk ''/app/dist/demo/catalog.js'' =
     Some (RegFile ''2024-05-01T10:00:00.000Z''
       (Inr [(''catalog'', JArr [JObj [(''title'', JStr ''Home''), (''filter'', JStr [])]])]))"
  "map_of demo_disk ''/app/dist/demo/catalog'' = None"
  "map_of demo_disk ''/app/dist/demo/broken'' = None"
  "map_of demo_disk ''/app/dist/demo/broken.js'' =
     Some (RegFile ''2024-05-01T10:00:00.000Z'' (Inl broken_module))"
  "map_of demo_disk ''/app/dist/demo/nothing'' = None"
  "map_of demo_disk ''/app/dist/demo/nothing.js'' = None"
  "map_of demo_disk ''/app/dist/empty/watch.js'' = None"
  "map_of demo_disk ''/app/dist/empty/stream.js'' = None"
  "map_of demo_disk ''/app/dist/empty/stream.js.js'' = None"
  "map_of demo_disk ''/app/dist/empty/stream.js.json'' = None"
  "map_of demo_disk ''/app/dist/empty/stream.js.node'' = None"
  by (simp_all add: demo_disk_def)

section \<open>Missing files\<close>

text \<open>
  A missing file under a function name other than \<^verbatim>\<open>watch\<close>: 404, with a body that
  names the function and the provider, after one existence check and nothing else.
\<close>

lemma missing_file_not_found:
  assumes "provider \<notin> set reserved" and "functionName \<noteq> ''watch''"
    and "\<not> existsSync w (path_join [distDir s, provider, functionName @ ''.js''])"
  shows "dispatch s w c provider functionName q =
           \<lparr>resp = Json 404 (JObj [(''error'',
                     JStr (''Function '' @ functionName @ '' not found for '' @ provider))]),
            trace = [ExistsSync (path_join [distDir s, provider, functionName @ ''.js''])],
            cache_after = c\<rparr>"
  using assms
  by (simp add: dispatch_module_file module_file_def Let_def answer_def not_found_body_def)

text \<open>
  Under \<^verbatim>\<open>watch\<close> the fallback file is not looked for before it is resolved: when
  \<^verbatim>\<open>watch.js\<close> is missing and \<^verbatim>\<open>stream.js\<close> resolves to nothing, \<^verbatim>\<open>require.resolve\<close>
  throws inside the \<^verbatim>\<open>try\<close> block and the \<^verbatim>\<open>catch\<close> block answers 500.
\<close>

lemma missing_watch_and_stream:
  assumes "provider \<notin> set reserved"
    and "\<not> existsSync w (path_join [distDir s, provider, ''watch.js''])"
    and "find_path w (path_join [distDir s, provider, ''stream.js'']) = None"
  shows "dispatch s w c provider ''watch'' q =
           \<lparr>resp = execution_error (module_not_found (path_join [distDir s, provider, ''stream.js''])),
            trace = [ExistsSync (path_join [distDir s, provider, ''watch.js'']),
                     RequireResolve (path_join [distDir s, provider, ''stream.js''])],
            cache_after = c\<rparr>"
  using assms
  by (simp add: dispatch_module_file module_file_def Let_def answer_def execute_def
        fresh_load_def require_resolve_settled respond_def)

text \<open>
  C1. A request for a module file that is missing is to be answered 404 with a body that
  names the provider and the function, never 500, also under \<^verbatim>\<open>watch\<close> when
  \<^verbatim>\<open>stream.js\<close> is missing too. The handler does not do so there:
  \<^verbatim>\<open>GET /empty/watch\<close>, for a provider directory with neither \<^verbatim>\<open>watch.js\<close> nor
  \<^verbatim>\<open>stream.js\<close>, is answered 500 with the message of the module loader and a stack.
\<close>

theorem watch_without_stream_is_500:
  "dispatch demo_server demo_world Map.empty ''empty'' ''watch'' Map.empty =
     \<lparr>resp = Json 500 (JObj [(''error'', JStr ''Cannot find module /app/dist/empty/stream.js''),
                             (''stack'', JStr ''Error: Cannot find module'')]),
      trace = [ExistsSync ''/app/dist/empty/watch.js'', RequireResolve ''/app/dist/empty/stream.js''],
      cache_after = Map.empty\<rparr>"
proof -
  have "find_path demo_world ''/app/dist/empty/stream.js'' = None"
    by (simp add: find_path_def is_file_def is_directory_def try_extensions_def demo_world_def
          demo_disk_files)
  then show ?thesis
    using missing_watch_and_stream[of "''empty''" demo_world demo_server Map.empty Map.empty]
    by (simp add: reserved_def demo_server_def demo_paths existsSync_def demo_world_def
          demo_disk_files execution_error_def module_not_found_def)
qed

section \<open>The fallback from watch to stream\<close>

text \<open>
  A name that \<^verbatim>\<open>Object.prototype\<close> does not define is read from the own properties
  alone; \<^verbatim>\<open>stream\<close> and \<^verbatim>\<open>default\<close> are such names.
\<close>

lemma get_prop_own:
  "k \<notin> set object_prototype_members \<Longrightarrow> get_prop exported k = own_prop exported k"
  by (simp add: get_prop_def own_prop_def object_prototype_members_def split: option.splits)

lemma stream_and_default_are_own:
  "get_prop exported ''stream'' = own_prop exported ''stream''"
  "get_prop exported ''default'' = own_prop exported ''default''"
  by (simp_all add: get_prop_own object_prototype_members_def object_prototype_functions_def)




section \<open>Selection of the export\<close>

text \<open>
  C3 as it is worded, refuted, twice. A module that exports \<^verbatim>\<open>meta\<close> as \<^verbatim>\<open>null\<close>
  beside a default function: by the priority order of the names the export named
  \<^verbatim>\<open>meta\<close> is selected; the handler selects the default export, because \<^verbatim>\<open>||\<close> passes
  over a falsy operand. And a module that exports only \<^verbatim>\<open>posts\<close>, asked for
  \<^verbatim>\<open>toString\<close>: by the priority order the first export is selected; the handler selects
  the method \<^verbatim>\<open>toString\<close> that the export object inherits from \<^verbatim>\<open>Object.prototype\<close>,
  because \<^verbatim>\<open>module[functionName]\<close> follows the prototype chain.
\<close>

theorem falsy_export_is_skipped:
  "select_export ''meta'' [(''meta'', JNull), (''default'', JFun 3)] = JFun 3 \<and>
   by_priority ''meta'' [(''meta'', JNull), (''default'', JFun 3)] = JNull \<and>
   select_export ''toString'' [(''posts'', JFun 1)] = JBuiltin ''toString'' \<and>
   by_priority ''toString'' [(''posts'', JFun 1)] = JFun 1"
  by (simp add: select_export_def by_priority_def js_or_def get_prop_def first_value_def
        object_prototype_functions_def)

text \<open>
  C3, amended. For a function name that is not the name of a member of
  \<^verbatim>\<open>Object.prototype\<close>: when the name is not \<^verbatim>\<open>watch\<close> the dispatcher selects the own
  export of that name when it is truthy, otherwise the default export when it is truthy,
  otherwise the first export in the order of the export mapping (\<^verbatim>\<open>undefined\<close> when
  there is none); for \<^verbatim>\<open>watch\<close> it selects the export \<^verbatim>\<open>stream\<close> when it is truthy,
  otherwise the default export. A missing export reads as \<^verbatim>\<open>undefined\<close>, which is falsy.
\<close>

theorem select_export_first_truthy:
  assumes "functionName \<notin> set object_prototype_members"
  shows "select_export functionName exported =
     (if functionName = ''watch''
      then (if truthy (own_prop exported ''stream'')
            then own_prop exported ''stream''
            else own_prop exported ''default'')
      else if truthy (own_prop exported functionName) then own_prop exported functionName
      else if truthy (own_prop exported ''default'') then own_prop exported ''default''
      else first_value exported)"
  by (simp add: select_export_def js_or_def Let_def get_prop_own[OF assms]
        stream_and_default_are_own)

text \<open>
  A falsy named export beside a default one, the fallback under \<^verbatim>\<open>watch\<close>, and the first
  export where neither the name nor a default is exported.
\<close>

theorem select_export_first_truthy_witness:
  "select_export ''meta'' [(''meta'', JNull), (''default'', JFun 3)] = JFun 3 \<and>
   select_export ''watch'' [(''stream'', JFun 2)] = JFun 2 \<and>
   select_export ''posts'' [(''catalog'', JArr [])] = JArr []"
  using select_export_first_truthy[of "''meta''" "[(''meta'', JNull), (''default'', JFun 3)]"]
        select_export_first_truthy[of "''watch''" "[(''stream'', JFun 2)]"]
        select_export_first_truthy[of "''posts''" "[(''catalog'', JArr [])]"]
  by (simp add: object_prototype_members_def object_prototype_functions_def own_prop_def
        first_value_def)

text \<open>
  On a module all of whose exports are truthy (functions, arrays, objects, non-empty
  strings, numbers other than zero) the handler selects by the priority order of the
  names, for every name that \<^verbatim>\<open>Object.prototype\<close> does not define.
\<close>

lemma select_export_by_priority:
  assumes "functionName \<notin> set object_prototype_members"
    and "list_all (\<lambda>kv. truthy (snd kv)) exported"
  shows "select_export functionName exported = by_priority functionName exported"
proof -
  have t: "map_of exported k = Some v \<Longrightarrow> truthy v" for k v
    using assms(2) by (force simp: list_all_iff dest: map_of_SomeD)
  show ?thesis
    by (auto simp: select_export_def js_or_def Let_def get_prop_own[OF assms(1)]
          by_priority_def stream_else_default_def stream_and_default_are_own own_prop_def t
          split: option.splits)
qed

text \<open>
  For the name of a method of \<^verbatim>\<open>Object.prototype\<close> that the module does not export
  itself, the inherited method is selected, whatever the module exports.
\<close>

lemma inherited_member_is_selected:
  assumes "functionName \<in> set object_prototype_functions"
    and "map_of exported functionName = None"
  shows "select_export functionName exported = JBuiltin functionName"
proof -
  have "functionName \<noteq> ''watch''"
    using assms(1) by (auto simp: object_prototype_functions_def)
  then show ?thesis
    using assms by (simp add: select_export_def js_or_def get_prop_def)
qed

section \<open>Arguments of posts\<close>



section \<open>Exports that are data\<close>



section \<open>What is loaded afresh, and what is not\<close>













text \<open>
  So with the resolutions: \<^verbatim>\<open>stream.js\<close> is removed between two requests for
  \<^verbatim>\<open>/demo/watch\<close>. The second request still resolves the name, from the memory of the
  loader, and fails on reading the file; a server just started fails on resolving it.
\<close>

lemma stale_resolution_is_used:
  "fst (dispatch_on demo_server streamless_world
          (snd (snd (dispatch_on demo_server demo_world started ''demo'' ''watch'' Map.empty)))
          ''demo'' ''watch'' Map.empty) =
     Json 500 (JObj [(''error'', JStr ''Cannot read the file /app/dist/demo/stream.js''),
                     (''stack'', JStr ''Error: ENOENT or EISDIR'')]) \<and>
   fst (dispatch_on demo_server streamless_world started ''demo'' ''watch'' Map.empty) =
     Json 500 (JObj [(''error'', JStr ''Cannot find module /app/dist/demo/stream.js''),
                     (''stack'', JStr ''Error: Cannot find module'')])"
  by code_simp

section \<open>Provider files under /dist\<close>

text \<open>
  C8. \<^verbatim>\<open>GET /dist/provider/file\<close> where the file resolves to an existing \<^verbatim>\<open>.js\<close> module
  is to be answered with the JSON of the module's exports. The server does not do so
  when the request names the module file itself: \<^verbatim>\<open>GET /dist/demo/catalog.js\<close> on the
  build tree, where \<^verbatim>\<open>catalog.js\<close> is a module that loads and exports a catalog, is
  answered with the file as it is, streamed by the static middleware that is mounted on
  \<^verbatim>\<open>/dist\<close> in front of the route, under either treatment of dot files. The route
  itself, were it reached, would answer with the JSON of the exports.
\<close>

theorem existing_module_is_streamed_raw:
  "disk demo_world ''/app/dist/demo/catalog.js'' =
     Some (RegFile ''2024-05-01T10:00:00.000Z''
       (Inr [(''catalog'', JArr [JObj [(''title'', JStr ''Home''), (''filter'', JStr '''')]])])) \<and>
   resp (get_dist last_segment_hidden demo_server demo_world Map.empty ''demo'' ''catalog.js'') =
     StaticFile ''/app/dist/demo/catalog.js'' \<and>
   resp (get_dist any_segment_hidden demo_server demo_world Map.empty ''demo'' ''catalog.js'') =
     StaticFile ''/app/dist/demo/catalog.js'' \<and>
   resp (dist_file demo_server demo_world Map.empty ''demo'' ''catalog.js'') =
     Json 200 (JObj [(''catalog'', JArr [JObj [(''title'', JStr ''Home''), (''filter'', JStr '''')]])])"
proof (intro conjI)
  show "disk demo_world ''/app/dist/demo/catalog.js'' =
     Some (RegFile ''2024-05-01T10:00:00.000Z''
       (Inr [(''catalog'', JArr [JObj [(''title'', JStr ''Home''), (''filter'', JStr '''')]])]))"
    by (simp add: demo_world_def demo_disk_def)
  show "resp (get_dist last_segment_hidden demo_server demo_world Map.empty ''demo'' ''catalog.js'') =
     StaticFile ''/app/dist/demo/catalog.js''"
    by code_simp
  show "resp (get_dist any_segment_hidden demo_server demo_world Map.empty ''demo'' ''catalog.js'') =
     StaticFile ''/app/dist/demo/catalog.js''"
    by code_simp
  show "resp (dist_file demo_server demo_world Map.empty ''demo'' ''catalog.js'') =
     Json 200 (JObj [(''catalog'', JArr [JObj [(''title'', JStr ''Home''), (''filter'', JStr '''')]])])"
    by code_simp
qed

text \<open>
  The route is reached where the static middleware finds no file: \<^verbatim>\<open>/dist/demo/catalog\<close>
  is answered with the exports of \<^verbatim>\<open>catalog.js\<close>, \<^verbatim>\<open>/dist/demo/broken\<close> with 500,
  \<^verbatim>\<open>/dist/demo/nothing\<close> with 404 and the hint; and \<^verbatim>\<open>/dist/%2e%2e/manifest.json\<close>,
  whose joined name leaves the module root, with the manifest of the project.
\<close>

lemma get_dist_examples:
  "resp (get_dist last_segment_hidden demo_server demo_world Map.empty ''demo'' ''catalog'') =
     Json 200 (JObj [(''catalog'', JArr [JObj [(''title'', JStr ''Home''), (''filter'', JStr '''')]])])"
  "resp (get_dist last_segment_hidden demo_server demo_world Map.empty ''demo'' ''broken'') =
     Json 500 (JObj [(''error'', JStr ''Failed to load module''),
                     (''details'', JStr ''Unexpected token'')])"
  "resp (get_dist last_segment_hidden demo_server demo_world Map.empty ''demo'' ''nothing'') =
     Json 404 (JObj [(''error'', JStr ''File not found: demo/nothing''),
                     (''hint'', JStr ''Make sure to run build first'')])"
  "resp (get_dist last_segment_hidden demo_server demo_world Map.empty ''..'' ''manifest.json'') =
     SendFile ''/app/manifest.json''"
  by code_simp+

section \<open>Search by path\<close>

lemma hex_value_digit: "n < 16 \<Longrightarrow> hex_value (hex_digit n) = Some n"
proof -
  assume "n < 16"
  then have "n \<in> set [0..<16]" by simp
  then show ?thesis
    by (simp add: upt_rec hex_value_def hex_digit_def) (elim disjE; simp)
qed

lemma percent_not_unreserved: "unreserved ch \<Longrightarrow> ch \<noteq> CHR ''%''"
  by (auto simp: unreserved_def)

lemma percent_decode_percent:
  "percent_decode (percent ch @ rest) = map_option ((#) ch) (percent_decode rest)"
proof -
  have lt: "of_char ch div 16 < (16::nat)" "of_char ch mod 16 < (16::nat)"
    using nat_of_char_less_256[of ch] by (simp_all add: div_less_iff_less_mult)
  have "char_of (16 * ((of_char ch :: nat) div 16) + of_char ch mod 16) = ch"
    by simp
  then show ?thesis
    by (simp add: percent_def hex_value_digit lt)
qed

text \<open>Decoding an encoded component gives the component back.\<close>

lemma decode_encode: "percent_decode (encodeURIComponent str) = Some str"
proof (induction str)
  case Nil
  show ?case by (simp add: encodeURIComponent_def)
next
  case (Cons ch str)
  then have IH: "percent_decode (concat (map (\<lambda>ch. if unreserved ch then [ch] else percent ch) str)) = Some str"
    by (simp add: encodeURIComponent_def)
  show ?case
  proof (cases "unreserved ch")
    case True
    then show ?thesis using IH percent_not_unreserved[OF True]
      by (simp add: encodeURIComponent_def)
  next
    case False
    then show ?thesis using IH
      by (simp add: encodeURIComponent_def percent_decode_percent del: percent_decode.simps)
  qed
qed

lemma hex_digit_safe: "uri_safe (hex_digit n)"
proof -
  have "n mod 16 \<in> set [0..<16]" by simp
  then show ?thesis
    by (simp add: upt_rec hex_digit_def uri_safe_def del: set_upt) (elim disjE; simp)
qed

lemma percent_safe: "list_all uri_safe (percent ch)"
proof -
  have "uri_safe (CHR ''%'')" by (simp add: uri_safe_def)
  then show ?thesis by (simp add: percent_def hex_digit_safe)
qed

lemma unreserved_safe: "unreserved ch \<Longrightarrow> uri_safe ch"
  by (simp add: uri_safe_def)

text \<open>
  An encoded component has no character that ends or splits a query parameter: it is
  made of unreserved characters, percent signs and hexadecimal digits.
\<close>

lemma encode_safe: "list_all uri_safe (encodeURIComponent str)"
proof (induction str)
  case Nil
  show ?case by (simp add: encodeURIComponent_def)
next
  case (Cons ch str)
  then show ?case
    by (cases "unreserved ch") (simp_all add: encodeURIComponent_def percent_safe unreserved_safe)
qed

text \<open>
  C9. \<^verbatim>\<open>GET /provider/search/query\<close> is answered with a redirect to
  \<^verbatim>\<open>/provider/search?query=\<close> followed by the query, URL-encoded: the parameter of the
  redirected request decodes to the query of the path. The handler checks no file, loads
  no module and calls no provider function, for any provider name.
\<close>

theorem search_path_redirects:
  "search_redirect c provider query' =
     \<lparr>resp = Redirect 302 (''/'' @ provider @ ''/search?query='' @ encodeURIComponent query'),
      trace = [], cache_after = c\<rparr> \<and>
   list_all uri_safe (encodeURIComponent query') \<and>
   percent_decode (encodeURIComponent query') = Some query'"
  by (simp add: search_redirect_def answer_def encode_safe decode_encode)

lemma search_redirect_example:
  "resp (search_redirect Map.empty ''demo'' ''a b&c/d'') =
     Redirect 302 ''/demo/search?query=a%20b%26c%2Fd''"
  by (simp add: search_redirect_def answer_def encodeURIComponent_def unreserved_def percent_def
        hex_digit_def)

section \<open>Status and provider list without a build\<close>





end
